theory Spec2Isabelle
  imports Complex_Main
begin

section \<open>The player of src/objects/Player.ts\<close>

text \<open>
  The class \<open>Player\<close> extends a Phaser sprite. Its own fields, and the fields of the
  sprite, of the physics body and of the held weapon that its methods read or write, are
  collected in one record; every method becomes a function from the record to the updated
  record. JavaScript numbers are modelled exactly: hit points and damage as \<open>int\<close>,
  times, positions and velocities as \<open>real\<close> (rounding of doubles is not modelled).
\<close>

subsection \<open>Data\<close>

datatype PlayerState = Default | Talking | FinishTalking

text \<open>The two animation keys built by \<open>getIdleAnimationKey\<close> and \<open>getRunAnimationKey\<close>.\<close>

datatype animation_key = IdleAnimationKey | RunAnimationKey

type_synonym vector2 = "real \<times> real"

text \<open>
  The weapon is a sprite of its own. Only what \<open>Player\<close> sets on it is recorded:
  \<open>setFlipX\<close>, \<open>setVisible\<close>, \<open>getBody().setEnable\<close> and \<open>setModel\<close>.
\<close>

record weapon =
  weapon_flipX :: bool
  weapon_visible :: bool
  weapon_bodyEnable :: bool
  weapon_model :: string

record player =
  pos_x :: real
  pos_y :: real
  flipX :: bool
  animation :: "animation_key option"
  velocity :: vector2
  immovable :: bool
  weapon :: weapon
  hitPoints :: int
  attackEnabled :: bool
  currentState :: PlayerState
  elapsedTime :: real

text \<open>The five keys, as the engine reports them (\<open>isDown\<close>) when \<open>update\<close> runs.\<close>

record keys =
  keyW :: bool
  keyA :: bool
  keyS :: bool
  keyD :: bool
  keyJ :: bool

text \<open>The main camera of the scene, read by \<open>receiveDamage\<close>.\<close>

record camera =
  worldView_x :: real
  worldView_y :: real
  cam_width :: real
  cam_height :: real
  cam_zoom :: real

text \<open>The events sent through the dispatcher, with their payloads.\<close>

datatype event =
    PlayerDies
  | Damage int real real nat
  | PlayerHpChange int

text \<open>
  What a method does besides changing the record, in the order of the calls:
  \<open>setFrame\<close> with the hit frame, \<open>sound.play\<close>, and \<open>emit\<close> on the dispatcher.
\<close>

datatype effect =
    SetFrameHit
  | SoundPlayDamagePlayer
  | Emit event

fun emitted :: "effect list \<Rightarrow> event list" where
  "emitted [] = []"
| "emitted (Emit e # fs) = e # emitted fs"
| "emitted (f # fs) = emitted fs"

subsection \<open>Constants and the constructor\<close>

definition MAX_HIT_POINTS :: int where
  "MAX_HIT_POINTS = 8"

definition MOVE_SPEED :: real where
  "MOVE_SPEED = 64"

definition RegularSword :: string where
  "RegularSword = ''RegularSword''"

text \<open>
  A fresh sprite is not flipped and plays no animation, a fresh body rests and is movable
  (the defaults of the engine); the constructor sets the rest.
\<close>

definition newWeapon :: "string \<Rightarrow> weapon" where
  "newWeapon m =
     \<lparr>weapon_flipX = False, weapon_visible = True, weapon_bodyEnable = True,
      weapon_model = m\<rparr>"

definition newPlayer :: "real \<Rightarrow> real \<Rightarrow> player" where
  "newPlayer x y =
     \<lparr>pos_x = x, pos_y = y, flipX = False, animation = None,
      velocity = (0, 0), immovable = False,
      weapon = newWeapon RegularSword,
      hitPoints = MAX_HIT_POINTS,
      attackEnabled = True,
      currentState = Default,
      elapsedTime = 0\<rparr>"

subsection \<open>receiveDamage\<close>

definition receiveDamage :: "camera \<Rightarrow> int \<Rightarrow> player \<Rightarrow> player \<times> effect list" where
  "receiveDamage cam damage p =
     (let hp = max 0 (hitPoints p - damage);
          p' = p\<lparr>hitPoints := hp\<rparr>;
          dies = (if hp = 0 then [Emit PlayerDies] else []);
          cameraTopLeftX = worldView_x cam;
          cameraTopLeftY = worldView_y cam;
          ratioX = (pos_x p - cameraTopLeftX) / cam_width cam;
          ratioY = (pos_y p - cameraTopLeftY) / cam_height cam;
          canvasWidth = cam_width cam * cam_zoom cam;
          canvasHeight = cam_height cam * cam_zoom cam
      in (p',
          [SetFrameHit, SoundPlayDamagePlayer] @ dies @
          [Emit (Damage damage (ratioX * canvasWidth) (ratioY * canvasHeight) 0xff0000),
           Emit (PlayerHpChange hp)]))"

subsection \<open>The vector operations of the engine\<close>

text \<open>
  \<open>Phaser.Math.Vector2\<close> is the engine's, not the repository's: \<open>normalize\<close> divides a
  vector of positive squared length by its length and leaves the zero vector alone,
  \<open>scale\<close> multiplies both components, \<open>length\<close> is the Euclidean norm.
\<close>

definition normalize :: "vector2 \<Rightarrow> vector2" where
  "normalize v =
     (let len = fst v * fst v + snd v * snd v
      in if len > 0 then (fst v * (1 / sqrt len), snd v * (1 / sqrt len)) else v)"

definition scale :: "real \<Rightarrow> vector2 \<Rightarrow> vector2" where
  "scale c v = (fst v * c, snd v * c)"

definition vlength :: "vector2 \<Rightarrow> real" where
  "vlength v = sqrt (fst v * fst v + snd v * snd v)"

subsection \<open>update\<close>

text \<open>The ladder of the \<open>Default\<close> state: the first branch whose keys are down wins.\<close>

definition updateVelocity :: "keys \<Rightarrow> vector2" where
  "updateVelocity k =
     (if keyW k \<and> keyA k then scale MOVE_SPEED (normalize (-1, -1))
      else if keyS k \<and> keyA k then scale MOVE_SPEED (normalize (-1, 1))
      else if keyS k \<and> keyD k then scale MOVE_SPEED (normalize (1, 1))
      else if keyW k \<and> keyD k then scale MOVE_SPEED (normalize (1, -1))
      else if keyW k then (0, - MOVE_SPEED)
      else if keyA k then (- MOVE_SPEED, 0)
      else if keyS k then (0, MOVE_SPEED)
      else if keyD k then (MOVE_SPEED, 0)
      else (0, 0))"

text \<open>The first part of \<open>update\<close>: the branch on \<open>currentState\<close> (lines 177 to 231).\<close>

definition updateState :: "keys \<Rightarrow> player \<Rightarrow> player" where
  "updateState k p =
     (case currentState p of
        Default \<Rightarrow> p\<lparr>velocity := updateVelocity k\<rparr>
      | Talking \<Rightarrow> p\<lparr>velocity := (0, 0)\<rparr>
      | FinishTalking \<Rightarrow>
          (if elapsedTime p > 200 then p\<lparr>currentState := Default\<rparr> else p))"

text \<open>The second part: flip of the sprite and of the weapon (lines 233 to 243).\<close>

definition updateFlipX :: "player \<Rightarrow> player" where
  "updateFlipX p =
     (if fst (velocity p) > 0
      then p\<lparr>flipX := False, weapon := (weapon p)\<lparr>weapon_flipX := False\<rparr>\<rparr>
      else if fst (velocity p) < 0
      then p\<lparr>flipX := True, weapon := (weapon p)\<lparr>weapon_flipX := True\<rparr>\<rparr>
      else p)"

text \<open>The third part: animation and physics body (lines 245 to 255).\<close>

definition updateFrame :: "player \<Rightarrow> player" where
  "updateFrame p =
     (if fst (velocity p) = 0 \<and> snd (velocity p) = 0
      then p\<lparr>animation := Some IdleAnimationKey, immovable := True\<rparr>
      else p\<lparr>animation := Some RunAnimationKey, immovable := False\<rparr>)"

text \<open>
  \<open>Weapon.update\<close> belongs to the class \<open>Weapon\<close> of Weapon.ts, whose code is not part
  of this development. It is a parameter \<open>wu\<close> of \<open>update\<close>: given the player (which
  holds the weapon), the state of the action key that \<open>isActionKeyDown\<close> lets it read, and
  \<open>attackEnabled\<close>, it returns the weapon after the call. It is taken to write to the
  weapon only.
\<close>

type_synonym weapon_update = "player \<Rightarrow> bool \<Rightarrow> bool \<Rightarrow> weapon"

definition update :: "weapon_update \<Rightarrow> keys \<Rightarrow> real \<Rightarrow> player \<Rightarrow> player" where
  "update wu k delta p =
     (let p1 = updateState k p;
          p2 = updateFlipX p1;
          p3 = updateFrame p2;
          p4 = p3\<lparr>weapon := wu p3 (keyJ k) (attackEnabled p3)\<rparr>
      in p4\<lparr>elapsedTime := elapsedTime p4 + delta\<rparr>)"

subsection \<open>The remaining methods\<close>

definition isActionKeyDown :: "keys \<Rightarrow> bool" where
  "isActionKeyDown k = keyJ k"

definition setAttackEnabled :: "bool \<Rightarrow> player \<Rightarrow> player" where
  "setAttackEnabled enabled p = p\<lparr>attackEnabled := enabled\<rparr>"

text \<open>
  The payload of \<open>ItemSlotChange\<close> has an optional asset name; the test of the source is
  JavaScript truthiness, which the empty string fails as a missing value does.
\<close>

definition handleItemSlotChange :: "string option \<Rightarrow> player \<Rightarrow> player" where
  "handleItemSlotChange currentWeaponAsset p =
     (case currentWeaponAsset of
        Some a \<Rightarrow>
          (if a \<noteq> []
           then p\<lparr>weapon := (weapon p)\<lparr>weapon_model := a, weapon_bodyEnable := True,
                                        weapon_visible := True\<rparr>\<rparr>
           else p\<lparr>weapon := (weapon p)\<lparr>weapon_visible := False,
                                        weapon_bodyEnable := False\<rparr>\<rparr>)
      | None \<Rightarrow>
          p\<lparr>weapon := (weapon p)\<lparr>weapon_visible := False, weapon_bodyEnable := False\<rparr>\<rparr>)"

definition setCurrentState :: "PlayerState \<Rightarrow> player \<Rightarrow> player" where
  "setCurrentState state p = p\<lparr>currentState := state, elapsedTime := 0\<rparr>"

definition getCurrentState :: "player \<Rightarrow> PlayerState" where
  "getCurrentState p = currentState p"

subsection \<open>Calls and the states a player can be in\<close>

text \<open>
  One call of a method that changes the player, with its arguments; \<open>call\<close> runs it.
  Between the calls the physics engine moves the sprite and may change the velocity of the
  body (at the bounds of the world, for one): \<open>PhysicsStep\<close> stands for it, with any new
  position and velocity. A state is reachable when such steps lead to it from the
  constructor.
\<close>

datatype action =
    ReceiveDamage camera int
  | Update keys real
  | SetAttackEnabled bool
  | HandleItemSlotChange "string option"
  | SetCurrentState PlayerState
  | PhysicsStep real real vector2

fun call :: "weapon_update \<Rightarrow> action \<Rightarrow> player \<Rightarrow> player" where
  "call wu (ReceiveDamage cam d) p = fst (receiveDamage cam d p)"
| "call wu (Update k delta) p = update wu k delta p"
| "call wu (SetAttackEnabled b) p = setAttackEnabled b p"
| "call wu (HandleItemSlotChange a) p = handleItemSlotChange a p"
| "call wu (SetCurrentState s) p = setCurrentState s p"
| "call wu (PhysicsStep x y v) p = p\<lparr>pos_x := x, pos_y := y, velocity := v\<rparr>"

inductive reachable :: "weapon_update \<Rightarrow> player \<Rightarrow> bool" for wu where
  reachable_new: "reachable wu (newPlayer x y)"
| reachable_call: "reachable wu p \<Longrightarrow> reachable wu (call wu m p)"


subsection \<open>Concrete inputs for the examples\<close>

text \<open>
  A camera of 320 by 240 at the origin with zoom 2, a \<open>Weapon.update\<close> that leaves the
  weapon as it is, and the keys \<open>W\<close>, \<open>A\<close>, \<open>S\<close>, \<open>D\<close> held as given.
\<close>

abbreviation cam320 :: camera where
  "cam320 \<equiv> \<lparr>worldView_x = 0, worldView_y = 0, cam_width = 320, cam_height = 240,
              cam_zoom = 2\<rparr>"

abbreviation weaponIdle :: weapon_update where
  "weaponIdle \<equiv> (\<lambda>p j a. weapon p)"

abbreviation held :: "bool \<Rightarrow> bool \<Rightarrow> bool \<Rightarrow> bool \<Rightarrow> keys" where
  "held w a s d \<equiv> \<lparr>keyW = w, keyA = a, keyS = s, keyD = d, keyJ = False\<rparr>"

section \<open>Hit points\<close>

lemma hitPoints_receiveDamage:
  "hitPoints (fst (receiveDamage cam d p)) = max 0 (hitPoints p - d)"
  by (simp add: receiveDamage_def Let_def)

lemma hitPoints_update: "hitPoints (update wu k delta p) = hitPoints p"
  by (simp add: update_def updateState_def updateFlipX_def updateFrame_def Let_def
      split: PlayerState.split)

lemma hitPoints_call_nonneg: "0 \<le> hitPoints p \<Longrightarrow> 0 \<le> hitPoints (call wu m p)"
  by (cases m)
    (simp_all add: hitPoints_receiveDamage hitPoints_update setAttackEnabled_def
      handleItemSlotChange_def setCurrentState_def split: option.split)

lemma reachable_hitPoints_nonneg: "reachable wu p \<Longrightarrow> 0 \<le> hitPoints p"
proof (induction rule: reachable.induct)
  case (reachable_new x y)
  show ?case by (simp add: newPlayer_def MAX_HIT_POINTS_def)
next
  case (reachable_call p m)
  then show ?case by (simp add: hitPoints_call_nonneg)
qed

text \<open>
  C1. A call \<open>receiveDamage(d)\<close> with \<open>d \<ge> 0\<close> on a player with hit points \<open>h\<close> sets the
  hit points to \<open>max(0, h - d)\<close>; the new value is not above the old one and is not
  negative. The player is any state that calls of the methods reach from the constructor.
\<close>

theorem receiveDamage_clamps:
  assumes "reachable wu p" and "0 \<le> d"
  shows "hitPoints (fst (receiveDamage cam d p)) = max 0 (hitPoints p - d)
       \<and> hitPoints (fst (receiveDamage cam d p)) \<le> hitPoints p
       \<and> 0 \<le> hitPoints (fst (receiveDamage cam d p))"
proof -
  have "0 \<le> hitPoints p"
    using assms(1) by (rule reachable_hitPoints_nonneg)
  with assms(2) show ?thesis
    by (simp add: hitPoints_receiveDamage)
qed

theorem receiveDamage_clamps_witness:
  "reachable weaponIdle (newPlayer 0 0) \<and> (0::int) \<le> 3
   \<and> hitPoints (fst (receiveDamage cam320 3 (newPlayer 0 0))) = 5
   \<and> hitPoints (fst (receiveDamage cam320 3 (newPlayer 0 0))) \<le> hitPoints (newPlayer 0 0)
   \<and> 0 \<le> hitPoints (fst (receiveDamage cam320 3 (newPlayer 0 0)))"
proof -
  have r: "reachable weaponIdle (newPlayer 0 0)"
    by (rule reachable_new)
  have d: "(0::int) \<le> 3"
    by simp
  show ?thesis
    using r receiveDamage_clamps [OF r d, of cam320]
    by (simp add: newPlayer_def MAX_HIT_POINTS_def)
qed



section \<open>The events of receiveDamage\<close>

lemma emitted_receiveDamage:
  "emitted (snd (receiveDamage cam d p)) =
     (if max 0 (hitPoints p - d) = 0 then [PlayerDies] else []) @
     [Damage d ((pos_x p - worldView_x cam) / cam_width cam * (cam_width cam * cam_zoom cam))
        ((pos_y p - worldView_y cam) / cam_height cam * (cam_height cam * cam_zoom cam))
        0xff0000,
      PlayerHpChange (max 0 (hitPoints p - d))]"
  by (simp add: receiveDamage_def Let_def)

text \<open>
  C2, as the code has it. A call of \<open>receiveDamage\<close> emits \<open>PlayerDies\<close> once when it
  leaves the hit points at 0 and not at all when it leaves them above 0. The test is on the
  value after the call only, so a call with \<open>d \<ge> 0\<close> on a player whose hit points are
  0 already emits \<open>PlayerDies\<close> once more.
\<close>

theorem receiveDamage_PlayerDies_count:
  "count_list (emitted (snd (receiveDamage cam d p))) PlayerDies =
     (if hitPoints (fst (receiveDamage cam d p)) = 0 then 1 else 0)
   \<and> (hitPoints p = 0 \<and> 0 \<le> d \<longrightarrow>
        count_list (emitted (snd (receiveDamage cam d p))) PlayerDies = 1)"
  by (simp add: emitted_receiveDamage hitPoints_receiveDamage)

theorem receiveDamage_PlayerDies_count_witness:
  "count_list (emitted (snd (receiveDamage cam320 3 (newPlayer 0 0)))) PlayerDies = 0
   \<and> count_list (emitted (snd (receiveDamage cam320 8 (newPlayer 0 0)))) PlayerDies = 1
   \<and> hitPoints (fst (receiveDamage cam320 8 (newPlayer 0 0))) = 0
   \<and> count_list (emitted (snd (receiveDamage cam320 2
         (fst (receiveDamage cam320 8 (newPlayer 0 0)))))) PlayerDies = 1"
  using receiveDamage_PlayerDies_count [of cam320 3 "newPlayer 0 0"]
    receiveDamage_PlayerDies_count [of cam320 8 "newPlayer 0 0"]
    receiveDamage_PlayerDies_count [of cam320 2 "fst (receiveDamage cam320 8 (newPlayer 0 0))"]
  by (simp add: hitPoints_receiveDamage newPlayer_def MAX_HIT_POINTS_def)

text \<open>
  The claim C2 as it is written fails: the fresh player takes 8, which brings the hit
  points to 0, and then 1; the second call starts at 0 and emits \<open>PlayerDies\<close> again.
\<close>

theorem PlayerDies_repeated_at_zero:
  "hitPoints (fst (receiveDamage cam320 8 (newPlayer 0 0))) = 0
   \<and> count_list (emitted (snd (receiveDamage cam320 1
         (fst (receiveDamage cam320 8 (newPlayer 0 0)))))) PlayerDies = 1"
  by (simp add: emitted_receiveDamage hitPoints_receiveDamage newPlayer_def MAX_HIT_POINTS_def)

text \<open>
  C6, as the code has it. A call of \<open>receiveDamage\<close> emits \<open>Damage\<close> and then
  \<open>PlayerHpChange\<close> with the new hit points; when the new hit points are 0, \<open>PlayerDies\<close>
  is emitted first, before both.
\<close>

theorem receiveDamage_event_order:
  "\<exists>sx sy. emitted (snd (receiveDamage cam d p)) =
     (if hitPoints (fst (receiveDamage cam d p)) = 0 then [PlayerDies] else []) @
     [Damage d sx sy 0xff0000, PlayerHpChange (hitPoints (fst (receiveDamage cam d p)))]"
  by (simp add: emitted_receiveDamage hitPoints_receiveDamage)

theorem receiveDamage_event_order_witness:
  "\<exists>sx sy. emitted (snd (receiveDamage cam320 3 (newPlayer 0 0))) =
     [Damage 3 sx sy 0xff0000, PlayerHpChange 5]"
  using receiveDamage_event_order [of cam320 3 "newPlayer 0 0"]
  by (simp add: hitPoints_receiveDamage newPlayer_def MAX_HIT_POINTS_def)

text \<open>
  The claim C6 as it is written fails on its own example: from 8 hit points, damage 3 and
  then damage 5; the second call emits \<open>PlayerDies\<close> before \<open>PlayerHpChange\<close>.
\<close>

theorem PlayerDies_before_PlayerHpChange:
  "hitPoints (fst (receiveDamage cam320 3 (newPlayer 0 0))) = 5
   \<and> emitted (snd (receiveDamage cam320 5 (fst (receiveDamage cam320 3 (newPlayer 0 0))))) =
       [PlayerDies, Damage 5 0 0 0xff0000, PlayerHpChange 0]"
  by (simp add: emitted_receiveDamage hitPoints_receiveDamage receiveDamage_def Let_def
      newPlayer_def MAX_HIT_POINTS_def)

section \<open>One tick of update\<close>

lemma velocity_update: "velocity (update wu k delta p) = velocity (updateState k p)"
  by (simp add: update_def updateFlipX_def updateFrame_def Let_def)

lemma currentState_update: "currentState (update wu k delta p) = currentState (updateState k p)"
  by (simp add: update_def updateFlipX_def updateFrame_def Let_def)


lemma flipX_update:
  "flipX (update wu k delta p) =
     (if 0 < fst (velocity (updateState k p)) then False
      else if fst (velocity (updateState k p)) < 0 then True
      else flipX p)"
  by (simp add: update_def updateState_def updateFlipX_def updateFrame_def Let_def
      split: PlayerState.split)

lemma weapon_flipX_update:
  assumes "\<And>q j a. weapon_flipX (wu q j a) = weapon_flipX (weapon q)"
  shows "weapon_flipX (weapon (update wu k delta p)) =
     (if 0 < fst (velocity (updateState k p)) then False
      else if fst (velocity (updateState k p)) < 0 then True
      else weapon_flipX (weapon p))"
  by (simp add: assms update_def updateState_def updateFlipX_def updateFrame_def Let_def
      split: PlayerState.split)

text \<open>
  C8. After a tick, a velocity of 0 on both axes goes with the idle animation and an
  immovable body, any other velocity with the run animation and a movable body.
\<close>

theorem update_idle_iff_immovable:
  "(velocity (update wu k delta p) = (0, 0) \<longrightarrow>
      animation (update wu k delta p) = Some IdleAnimationKey
      \<and> immovable (update wu k delta p))
   \<and> (velocity (update wu k delta p) \<noteq> (0, 0) \<longrightarrow>
      animation (update wu k delta p) = Some RunAnimationKey
      \<and> \<not> immovable (update wu k delta p))"
  by (simp add: update_def updateFlipX_def updateFrame_def Let_def prod_eq_iff)

theorem update_idle_iff_immovable_witness:
  "velocity (update weaponIdle (held False False False False) 16 (newPlayer 0 0)) = (0, 0)
   \<and> animation (update weaponIdle (held False False False False) 16 (newPlayer 0 0))
       = Some IdleAnimationKey
   \<and> immovable (update weaponIdle (held False False False False) 16 (newPlayer 0 0))
   \<and> velocity (update weaponIdle (held False False False True) 16 (newPlayer 0 0)) \<noteq> (0, 0)
   \<and> animation (update weaponIdle (held False False False True) 16 (newPlayer 0 0))
       = Some RunAnimationKey
   \<and> \<not> immovable (update weaponIdle (held False False False True) 16 (newPlayer 0 0))"
  using update_idle_iff_immovable [of weaponIdle "held False False False False" 16 "newPlayer 0 0"]
    update_idle_iff_immovable [of weaponIdle "held False False False True" 16 "newPlayer 0 0"]
  by (simp add: velocity_update updateState_def updateVelocity_def newPlayer_def MOVE_SPEED_def)

section \<open>Facing\<close>

lemma flip_call:
  assumes "\<And>q j a. weapon_flipX (wu q j a) = weapon_flipX (weapon q)"
    and "weapon_flipX (weapon p) = flipX p"
  shows "weapon_flipX (weapon (call wu m p)) = flipX (call wu m p)"
proof (cases m)
  case (Update k delta)
  then show ?thesis
    using assms(2) by (simp add: flipX_update weapon_flipX_update [of wu, OF assms(1)])
next
  case (ReceiveDamage cam d)
  then show ?thesis
    using assms(2) by (simp add: receiveDamage_def Let_def)
next
  case (HandleItemSlotChange a)
  then show ?thesis
    using assms(2) by (simp add: handleItemSlotChange_def split: option.split)
qed (use assms(2) in \<open>simp_all add: setAttackEnabled_def setCurrentState_def\<close>)

lemma reachable_flip:
  assumes "\<And>q j a. weapon_flipX (wu q j a) = weapon_flipX (weapon q)"
    and "reachable wu p"
  shows "weapon_flipX (weapon p) = flipX p"
  using assms(2)
proof (induction rule: reachable.induct)
  case (reachable_new x y)
  show ?case by (simp add: newPlayer_def newWeapon_def)
next
  case (reachable_call p m)
  then show ?case by (simp add: flip_call [of wu, OF assms(1)])
qed

text \<open>
  C7. In a tick, a horizontal velocity above 0 turns the player to the right (not
  flipped), one below 0 to the left (flipped), and 0 leaves the facing as it was; after the
  tick the flip of the weapon is the flip of the player. The player is any reachable state;
  \<open>Weapon.update\<close> is any function that leaves the flip of the weapon alone.
\<close>

theorem update_facing:
  assumes "\<forall>q j a. weapon_flipX (wu q j a) = weapon_flipX (weapon q)"
    and "reachable wu p"
  shows "(0 < fst (velocity (update wu k delta p)) \<longrightarrow> \<not> flipX (update wu k delta p))
       \<and> (fst (velocity (update wu k delta p)) < 0 \<longrightarrow> flipX (update wu k delta p))
       \<and> (fst (velocity (update wu k delta p)) = 0 \<longrightarrow>
            flipX (update wu k delta p) = flipX p)
       \<and> weapon_flipX (weapon (update wu k delta p)) = flipX (update wu k delta p)"
proof -
  have wu: "\<And>q j a. weapon_flipX (wu q j a) = weapon_flipX (weapon q)"
    using assms(1) by simp
  have "weapon_flipX (weapon p) = flipX p"
    using wu assms(2) by (rule reachable_flip)
  then show ?thesis
    by (simp add: velocity_update flipX_update weapon_flipX_update [of wu, OF wu])
qed

theorem update_facing_witness:
  "(\<forall>q j a. weapon_flipX (weaponIdle q j a) = weapon_flipX (weapon q))
   \<and> reachable weaponIdle (newPlayer 0 0)
   \<and> fst (velocity (update weaponIdle (held False True False False) 16 (newPlayer 0 0))) < 0
   \<and> flipX (update weaponIdle (held False True False False) 16 (newPlayer 0 0))
   \<and> weapon_flipX (weapon (update weaponIdle (held False True False False) 16 (newPlayer 0 0)))"
proof -
  have w: "\<forall>q j a. weapon_flipX (weaponIdle q j a) = weapon_flipX (weapon q)"
    by simp
  have r: "reachable weaponIdle (newPlayer 0 0)"
    by (rule reachable_new)
  show ?thesis
    using r update_facing [OF w r, of "held False True False False" 16]
    by (simp add: velocity_update updateState_def updateVelocity_def newPlayer_def
        MOVE_SPEED_def)
qed

section \<open>The behaviour state\<close>

lemma currentState_updateState:
  "currentState (updateState k p) =
     (if currentState p = FinishTalking \<and> 200 < elapsedTime p then Default
      else currentState p)"
  by (simp add: updateState_def split: PlayerState.split)

text \<open>
  C9. \<open>setCurrentState\<close> sets the elapsed time to 0 whatever the state given, the current
  one included; the constructor starts in \<open>Default\<close>, and a call that leaves the player in
  a state other than \<open>Default\<close> which it was not in before is a call of
  \<open>setCurrentState\<close>.
\<close>

theorem setCurrentState_only_entry:
  "elapsedTime (setCurrentState s p) = 0
   \<and> currentState (setCurrentState s p) = s
   \<and> elapsedTime (setCurrentState (currentState p) p) = 0
   \<and> currentState (newPlayer x y) = Default
   \<and> (currentState (call wu m p) \<noteq> Default \<and> currentState (call wu m p) \<noteq> currentState p
        \<longrightarrow> (\<exists>s'. m = SetCurrentState s'))"
proof -
  have "currentState (call wu m p) = Default \<or> currentState (call wu m p) = currentState p"
    if "\<And>s'. m \<noteq> SetCurrentState s'"
    using that
    by (cases m)
      (auto simp: receiveDamage_def Let_def currentState_update currentState_updateState
        setAttackEnabled_def handleItemSlotChange_def split: option.split)
  then show ?thesis
    by (auto simp: setCurrentState_def newPlayer_def)
qed

theorem setCurrentState_only_entry_witness:
  "currentState (call weaponIdle (SetCurrentState Talking) (newPlayer 0 0)) \<noteq> Default
   \<and> currentState (call weaponIdle (SetCurrentState Talking) (newPlayer 0 0))
       \<noteq> currentState (newPlayer 0 0)
   \<and> (\<exists>s'. SetCurrentState Talking = SetCurrentState s')
   \<and> elapsedTime (setCurrentState Talking (newPlayer 0 0)) = 0"
  using setCurrentState_only_entry
    [of Talking "newPlayer 0 0" 0 0 weaponIdle "SetCurrentState Talking"]
  by (simp add: setCurrentState_def newPlayer_def)

subsection \<open>Leaving FinishTalking\<close>







section \<open>Velocity\<close>

lemma normalize_diagonal:
  assumes "a * a = 1" and "b * b = 1"
  shows "scale MOVE_SPEED (normalize (a, b)) = (a * MOVE_SPEED / sqrt 2, b * MOVE_SPEED / sqrt 2)"
  using assms by (simp add: scale_def normalize_def Let_def)

lemma square_diagonal:
  assumes "a * a = (1::real)"
  shows "(a * c / sqrt 2) * (a * c / sqrt 2) = c * c / 2"
proof -
  have "(a * c / sqrt 2) * (a * c / sqrt 2) = (a * a) * (c * c) / (sqrt 2 * sqrt 2)"
    by simp
  also have "\<dots> = c * c / 2"
    using assms by simp
  finally show ?thesis .
qed

lemma vlength_diagonal:
  assumes "a * a = 1" and "b * b = 1"
  shows "vlength (a * MOVE_SPEED / sqrt 2, b * MOVE_SPEED / sqrt 2) = MOVE_SPEED"
proof -
  have "vlength (a * MOVE_SPEED / sqrt 2, b * MOVE_SPEED / sqrt 2) =
      sqrt (MOVE_SPEED * MOVE_SPEED)"
    unfolding vlength_def fst_conv snd_conv
      square_diagonal [OF assms(1)] square_diagonal [OF assms(2)]
    by simp
  also have "\<dots> = MOVE_SPEED"
    by (simp add: MOVE_SPEED_def)
  finally show ?thesis .
qed

lemma vlength_axis:
  "vlength (0, MOVE_SPEED) = MOVE_SPEED" "vlength (0, - MOVE_SPEED) = MOVE_SPEED"
  "vlength (MOVE_SPEED, 0) = MOVE_SPEED" "vlength (- MOVE_SPEED, 0) = MOVE_SPEED"
  "vlength (0, 0) = 0"
  by (simp_all add: vlength_def MOVE_SPEED_def)

lemma updateVelocity_cases:
  "keyW k \<and> keyA k \<Longrightarrow>
     updateVelocity k = (- 1 * MOVE_SPEED / sqrt 2, - 1 * MOVE_SPEED / sqrt 2)"
  "\<not> keyW k \<and> keyS k \<and> keyA k \<Longrightarrow>
     updateVelocity k = (- 1 * MOVE_SPEED / sqrt 2, 1 * MOVE_SPEED / sqrt 2)"
  "\<not> keyA k \<and> keyS k \<and> keyD k \<Longrightarrow>
     updateVelocity k = (1 * MOVE_SPEED / sqrt 2, 1 * MOVE_SPEED / sqrt 2)"
  "\<not> keyA k \<and> \<not> keyS k \<and> keyW k \<and> keyD k \<Longrightarrow>
     updateVelocity k = (1 * MOVE_SPEED / sqrt 2, - 1 * MOVE_SPEED / sqrt 2)"
  "keyW k \<and> \<not> keyA k \<and> \<not> keyD k \<Longrightarrow> updateVelocity k = (0, - MOVE_SPEED)"
  "keyA k \<and> \<not> keyW k \<and> \<not> keyS k \<Longrightarrow> updateVelocity k = (- MOVE_SPEED, 0)"
  "keyS k \<and> \<not> keyW k \<and> \<not> keyA k \<and> \<not> keyD k \<Longrightarrow> updateVelocity k = (0, MOVE_SPEED)"
  "keyD k \<and> \<not> keyW k \<and> \<not> keyA k \<and> \<not> keyS k \<Longrightarrow> updateVelocity k = (MOVE_SPEED, 0)"
  "\<not> keyW k \<and> \<not> keyA k \<and> \<not> keyS k \<and> \<not> keyD k \<Longrightarrow> updateVelocity k = (0, 0)"
  by (auto simp: updateVelocity_def normalize_diagonal)

lemma vlength_updateVelocity:
  "vlength (updateVelocity k) = (if keyW k \<or> keyA k \<or> keyS k \<or> keyD k then MOVE_SPEED else 0)"
proof -
  consider "keyW k \<and> keyA k" | "\<not> keyW k \<and> keyS k \<and> keyA k" | "\<not> keyA k \<and> keyS k \<and> keyD k"
    | "\<not> keyA k \<and> \<not> keyS k \<and> keyW k \<and> keyD k" | "keyW k \<and> \<not> keyA k \<and> \<not> keyD k"
    | "keyA k \<and> \<not> keyW k \<and> \<not> keyS k" | "keyS k \<and> \<not> keyW k \<and> \<not> keyA k \<and> \<not> keyD k"
    | "keyD k \<and> \<not> keyW k \<and> \<not> keyA k \<and> \<not> keyS k"
    | "\<not> keyW k \<and> \<not> keyA k \<and> \<not> keyS k \<and> \<not> keyD k"
    by blast
  then show ?thesis
  proof cases
    case 1
    then show ?thesis
      using vlength_diagonal [of "- 1" "- 1"] by (simp add: updateVelocity_cases(1))
  next
    case 2
    then show ?thesis
      using vlength_diagonal [of "- 1" "1"] by (simp add: updateVelocity_cases(2))
  next
    case 3
    then show ?thesis
      using vlength_diagonal [of "1" "1"] by (simp add: updateVelocity_cases(3))
  next
    case 4
    then show ?thesis
      using vlength_diagonal [of "1" "- 1"] by (simp add: updateVelocity_cases(4))
  next
    case 5
    then show ?thesis
      by (simp add: updateVelocity_cases(5) vlength_axis)
  next
    case 6
    then show ?thesis
      by (simp add: updateVelocity_cases(6) vlength_axis)
  next
    case 7
    then show ?thesis
      by (simp add: updateVelocity_cases(7) vlength_axis)
  next
    case 8
    then show ?thesis
      by (simp add: updateVelocity_cases(8) vlength_axis)
  next
    case 9
    then show ?thesis
      by (simp add: updateVelocity_cases(9) vlength_axis)
  qed
qed

lemma velocity_update_Default:
  "currentState p = Default \<Longrightarrow> velocity (update wu k delta p) = updateVelocity k"
  by (simp add: velocity_update updateState_def)

text \<open>
  C5, as the code has it. In the \<open>Default\<close> state the velocity after a tick follows the
  ladder, over the reals: \<open>W\<close> with \<open>A\<close>, then \<open>S\<close> with \<open>A\<close>, then \<open>S\<close> with \<open>D\<close>, then
  \<open>W\<close> with \<open>D\<close> give the diagonal with both components \<open>MOVE_SPEED / sqrt 2\<close> in size;
  otherwise the first key down of \<open>W\<close>, \<open>A\<close>, \<open>S\<close>, \<open>D\<close> gives the axis vector of size
  \<open>MOVE_SPEED\<close>; no key gives zero. Opposite keys do not cancel: of \<open>W\<close> and \<open>S\<close> alone
  \<open>W\<close> wins, of \<open>A\<close> and \<open>D\<close> alone \<open>A\<close> wins. The length of the velocity is
  \<open>MOVE_SPEED\<close> when any key is down and 0 when none is.
\<close>

theorem update_Default_velocity:
  fixes wu k delta p
  defines "v \<equiv> velocity (update wu k delta p)"
  assumes "currentState p = Default"
  shows "(keyW k \<and> keyA k \<longrightarrow> v = (- (MOVE_SPEED / sqrt 2), - (MOVE_SPEED / sqrt 2)))
       \<and> (\<not> keyW k \<and> keyS k \<and> keyA k \<longrightarrow> v = (- (MOVE_SPEED / sqrt 2), MOVE_SPEED / sqrt 2))
       \<and> (\<not> keyA k \<and> keyS k \<and> keyD k \<longrightarrow> v = (MOVE_SPEED / sqrt 2, MOVE_SPEED / sqrt 2))
       \<and> (\<not> keyA k \<and> \<not> keyS k \<and> keyW k \<and> keyD k \<longrightarrow>
            v = (MOVE_SPEED / sqrt 2, - (MOVE_SPEED / sqrt 2)))
       \<and> (keyW k \<and> \<not> keyA k \<and> \<not> keyD k \<longrightarrow> v = (0, - MOVE_SPEED))
       \<and> (keyA k \<and> \<not> keyW k \<and> \<not> keyS k \<longrightarrow> v = (- MOVE_SPEED, 0))
       \<and> (keyS k \<and> \<not> keyW k \<and> \<not> keyA k \<and> \<not> keyD k \<longrightarrow> v = (0, MOVE_SPEED))
       \<and> (keyD k \<and> \<not> keyW k \<and> \<not> keyA k \<and> \<not> keyS k \<longrightarrow> v = (MOVE_SPEED, 0))
       \<and> (\<not> keyW k \<and> \<not> keyA k \<and> \<not> keyS k \<and> \<not> keyD k \<longrightarrow> v = (0, 0))
       \<and> vlength v = (if keyW k \<or> keyA k \<or> keyS k \<or> keyD k then MOVE_SPEED else 0)"
proof -
  have v: "v = updateVelocity k"
    unfolding v_def using assms(2) by (rule velocity_update_Default)
  have "vlength v = (if keyW k \<or> keyA k \<or> keyS k \<or> keyD k then MOVE_SPEED else 0)"
    unfolding v by (rule vlength_updateVelocity)
  moreover have "keyW k \<and> keyA k \<longrightarrow> v = (- (MOVE_SPEED / sqrt 2), - (MOVE_SPEED / sqrt 2))"
    unfolding v by (simp add: updateVelocity_cases(1))
  moreover have "\<not> keyW k \<and> keyS k \<and> keyA k \<longrightarrow>
      v = (- (MOVE_SPEED / sqrt 2), MOVE_SPEED / sqrt 2)"
    unfolding v by (simp add: updateVelocity_cases(2))
  moreover have "\<not> keyA k \<and> keyS k \<and> keyD k \<longrightarrow> v = (MOVE_SPEED / sqrt 2, MOVE_SPEED / sqrt 2)"
    unfolding v by (simp add: updateVelocity_cases(3))
  moreover have "\<not> keyA k \<and> \<not> keyS k \<and> keyW k \<and> keyD k \<longrightarrow>
      v = (MOVE_SPEED / sqrt 2, - (MOVE_SPEED / sqrt 2))"
    unfolding v by (simp add: updateVelocity_cases(4))
  moreover have "keyW k \<and> \<not> keyA k \<and> \<not> keyD k \<longrightarrow> v = (0, - MOVE_SPEED)"
    unfolding v by (simp add: updateVelocity_cases(5))
  moreover have "keyA k \<and> \<not> keyW k \<and> \<not> keyS k \<longrightarrow> v = (- MOVE_SPEED, 0)"
    unfolding v by (simp add: updateVelocity_cases(6))
  moreover have "keyS k \<and> \<not> keyW k \<and> \<not> keyA k \<and> \<not> keyD k \<longrightarrow> v = (0, MOVE_SPEED)"
    unfolding v by (simp add: updateVelocity_cases(7))
  moreover have "keyD k \<and> \<not> keyW k \<and> \<not> keyA k \<and> \<not> keyS k \<longrightarrow> v = (MOVE_SPEED, 0)"
    unfolding v by (simp add: updateVelocity_cases(8))
  moreover have "\<not> keyW k \<and> \<not> keyA k \<and> \<not> keyS k \<and> \<not> keyD k \<longrightarrow> v = (0, 0)"
    unfolding v by (simp add: updateVelocity_cases(9))
  ultimately show ?thesis
    by blast
qed

theorem update_Default_velocity_witness:
  "currentState (newPlayer 0 0) = Default
   \<and> velocity (update weaponIdle (held True True False False) 16 (newPlayer 0 0))
       = (- (MOVE_SPEED / sqrt 2), - (MOVE_SPEED / sqrt 2))
   \<and> vlength (velocity (update weaponIdle (held True True False False) 16 (newPlayer 0 0)))
       = MOVE_SPEED
   \<and> velocity (update weaponIdle (held False False True False) 16 (newPlayer 0 0))
       = (0, MOVE_SPEED)
   \<and> velocity (update weaponIdle (held False False False False) 16 (newPlayer 0 0)) = (0, 0)
   \<and> vlength (velocity (update weaponIdle (held False False False False) 16 (newPlayer 0 0)))
       = 0"
proof -
  have d: "currentState (newPlayer 0 0) = Default"
    by (simp add: newPlayer_def)
  have a: "velocity (update weaponIdle (held True True False False) 16 (newPlayer 0 0))
       = (- (MOVE_SPEED / sqrt 2), - (MOVE_SPEED / sqrt 2))
     \<and> vlength (velocity (update weaponIdle (held True True False False) 16 (newPlayer 0 0)))
       = MOVE_SPEED"
    using update_Default_velocity
      [where wu = weaponIdle and k = "held True True False False" and delta = 16, OF d]
    by auto
  have b: "velocity (update weaponIdle (held False False True False) 16 (newPlayer 0 0))
       = (0, MOVE_SPEED)"
    using update_Default_velocity
      [where wu = weaponIdle and k = "held False False True False" and delta = 16, OF d]
    by auto
  have c: "velocity (update weaponIdle (held False False False False) 16 (newPlayer 0 0)) = (0, 0)
     \<and> vlength (velocity (update weaponIdle (held False False False False) 16 (newPlayer 0 0)))
       = 0"
    using update_Default_velocity
      [where wu = weaponIdle and k = "held False False False False" and delta = 16, OF d]
    by auto
  show ?thesis
    using d a b c by blast
qed

text \<open>
  The claim C5 as it is written fails: with \<open>W\<close> and \<open>S\<close> down the player moves up at
  full speed, and with \<open>A\<close> and \<open>D\<close> down to the left; neither axis is cancelled.
\<close>

theorem opposite_keys_do_not_cancel:
  "velocity (update weaponIdle (held True False True False) 16 (newPlayer 0 0)) = (0, - 64)
   \<and> velocity (update weaponIdle (held False True False True) 16 (newPlayer 0 0)) = (- 64, 0)"
  by (simp add: velocity_update updateState_def updateVelocity_def newPlayer_def MOVE_SPEED_def)

section \<open>Velocity while talking\<close>

lemma velocity_update_Talking:
  "currentState p = Talking \<Longrightarrow> velocity (update wu k delta p) = (0, 0)"
  by (simp add: velocity_update updateState_def)

lemma velocity_update_FinishTalking:
  "currentState p = FinishTalking \<Longrightarrow> velocity (update wu k delta p) = velocity p"
  by (simp add: velocity_update updateState_def)

text \<open>
  C3. In \<open>Talking\<close> a tick sets the velocity to zero. In \<open>FinishTalking\<close> the branch only
  tests the elapsed time and does not touch the body: a player that moves right when
  \<open>setCurrentState(FinishTalking)\<close> is called still moves right after the next tick, with
  no key down, and the tick after that, and it runs and is movable.
\<close>

theorem FinishTalking_keeps_velocity:
  "currentState (setCurrentState FinishTalking
      (update weaponIdle (held False False False True) 16 (newPlayer 0 0))) = FinishTalking
   \<and> velocity (update weaponIdle (held False False False False) 16
      (setCurrentState FinishTalking
        (update weaponIdle (held False False False True) 16 (newPlayer 0 0)))) = (64, 0)
   \<and> animation (update weaponIdle (held False False False False) 16
      (setCurrentState FinishTalking
        (update weaponIdle (held False False False True) 16 (newPlayer 0 0))))
      = Some RunAnimationKey
   \<and> \<not> immovable (update weaponIdle (held False False False False) 16
      (setCurrentState FinishTalking
        (update weaponIdle (held False False False True) 16 (newPlayer 0 0))))"
  by (simp add: update_def updateState_def updateFlipX_def updateFrame_def updateVelocity_def
      setCurrentState_def newPlayer_def MOVE_SPEED_def Let_def)

end
